theory Spec2Isabelle
  imports Main
begin

section \<open>Data model\<close>

text \<open>
  The gacha commands of \<^verbatim>\<open>exts/gacha_cmds.py\<close> work on three tables (players, items and
  the item-to-player link table) and on the guild configuration. Rows are records, tables
  are lists in insertion order, identifiers are natural numbers and Python's unbounded
  integers are \<open>int\<close>.
\<close>

record config =
  player_role :: "nat option"   \<comment> \<open>\<^verbatim>\<open>config.player_role\<close>\<close>
  enabled :: bool               \<comment> \<open>\<^verbatim>\<open>config.gacha.enabled\<close>\<close>
  currency_cost :: int          \<comment> \<open>\<^verbatim>\<open>config.gacha.currency_cost\<close>\<close>

record member =
  member_id :: nat
  roles :: "nat list"

record slash_context =
  guild_id :: nat
  author :: member

record gacha_player =
  p_id :: nat
  p_guild_id :: nat
  p_user_id :: nat
  currency_amount :: int

record gacha_item =
  i_id :: nat
  i_guild_id :: nat
  i_name :: string
  amount :: int                 \<comment> \<open>\<open>-1\<close> is unlimited stock\<close>

text \<open>
  \<open>unique_guild_user\<close> says whether the storage schema declares the pair
  (guild id, user id) of a player row unique. The schema is not among the sources,
  so both possibilities are kept.
\<close>

record database =
  players :: "gacha_player list"
  items :: "gacha_item list"
  item_to_player :: "(nat \<times> nat) list"   \<comment> \<open>(item id, player id), one row per draw\<close>
  unique_guild_user :: bool

datatype error =
    GachaNotEnabled        \<comment> \<open>"Gacha is not enabled in this server."\<close>
  | NoPlayerRole           \<comment> \<open>"You do not have the Player role."\<close>
  | NotEnoughToDraw        \<comment> \<open>"You do not have enough currency to draw from the gacha."\<close>
  | NoItemsToDraw          \<comment> \<open>"No items to draw."\<close>
  | NoGachaData            \<comment> \<open>"You have no data for gacha."\<close>
  | NotEnoughToGive        \<comment> \<open>"You do not have enough currency to give."\<close>
  | RecipientNoGachaData   \<comment> \<open>"The recipient has no data for gacha."\<close>
  | ItemNotFound           \<comment> \<open>"Item either does not exist or you do not have it."\<close>
  | OptionOutOfRange       \<comment> \<open>an option value outside its declared \<open>min_value\<close>/\<open>max_value\<close>\<close>
  | RecordNotFound         \<comment> \<open>raised by \<^verbatim>\<open>find_first_or_raise\<close>\<close>
  | UniqueViolation        \<comment> \<open>raised by a create that breaks a unique constraint\<close>

section \<open>Roles and configuration gates\<close>

text \<open>\<^verbatim>\<open>not config.player_role\<close>: the role is missing or is the falsy integer 0.\<close>

definition role_unset :: "config \<Rightarrow> bool" where
  "role_unset cfg = (case player_role cfg of None \<Rightarrow> True | Some r \<Rightarrow> r = 0)"

text \<open>\<^verbatim>\<open>not config.player_role or not config.gacha.enabled\<close>\<close>

definition gacha_disabled :: "config \<Rightarrow> bool" where
  "gacha_disabled cfg = (role_unset cfg \<or> \<not> enabled cfg)"

definition has_role :: "member \<Rightarrow> nat option \<Rightarrow> bool" where
  "has_role m ro = (case ro of None \<Rightarrow> False | Some r \<Rightarrow> r \<in> set (roles m))"

section \<open>Storage operations\<close>

text \<open>
  Modelled from the spec: \<^verbatim>\<open>common/models.py\<close> (the classes \<^verbatim>\<open>GachaPlayer\<close> and
  \<^verbatim>\<open>GachaItem\<close> with \<^verbatim>\<open>get_or_none\<close>, \<^verbatim>\<open>get_or_create\<close>, \<^verbatim>\<open>save\<close> and the generated
  query methods) is missing from the sources. A player is looked up by guild and user, is
  created lazily with a fresh identifier and a zero balance, and is written back by its
  identifier.
\<close>

definition fresh_id :: "nat list \<Rightarrow> nat" where
  "fresh_id ids = Suc (foldr max ids 0)"

definition get_or_none :: "database \<Rightarrow> nat \<Rightarrow> nat \<Rightarrow> gacha_player option" where
  "get_or_none db g u = find (\<lambda>p. p_guild_id p = g \<and> p_user_id p = u) (players db)"

definition new_player :: "database \<Rightarrow> nat \<Rightarrow> nat \<Rightarrow> gacha_player" where
  "new_player db g u =
     \<lparr>p_id = fresh_id (map p_id (players db)), p_guild_id = g, p_user_id = u,
      currency_amount = 0\<rparr>"

definition insert_player :: "database \<Rightarrow> gacha_player \<Rightarrow> database" where
  "insert_player db p = db\<lparr>players := players db @ [p]\<rparr>"

text \<open>\<^verbatim>\<open>GachaPlayer.prisma().create(data={"guild_id": g, "user_id": u})\<close>\<close>

definition create :: "database \<Rightarrow> nat \<Rightarrow> nat \<Rightarrow> error + (gacha_player \<times> database)" where
  "create db g u =
     (if unique_guild_user db \<and> get_or_none db g u \<noteq> None then Inl UniqueViolation
      else Inr (new_player db g u, insert_player db (new_player db g u)))"

definition get_or_create :: "database \<Rightarrow> nat \<Rightarrow> nat \<Rightarrow> gacha_player \<times> database" where
  "get_or_create db g u =
     (case get_or_none db g u of
        Some p \<Rightarrow> (p, db)
      | None \<Rightarrow> (new_player db g u, insert_player db (new_player db g u)))"

text \<open>\<^verbatim>\<open>player.save()\<close>: the row with the object's id takes the object's fields.\<close>

definition save :: "database \<Rightarrow> gacha_player \<Rightarrow> database" where
  "save db p = db\<lparr>players := map (\<lambda>q. if p_id q = p_id p then p else q) (players db)\<rparr>"

text \<open>The filter \<^verbatim>\<open>where={"guild_id": g, "amount": {"not": 0}}\<close> of the draw.\<close>

definition in_stock :: "nat \<Rightarrow> gacha_item \<Rightarrow> bool" where
  "in_stock g i = (i_guild_id i = g \<and> amount i \<noteq> 0)"

definition count_items :: "database \<Rightarrow> nat \<Rightarrow> nat" where
  "count_items db g = length (filter (in_stock g) (items db))"

text \<open>\<^verbatim>\<open>find_first_or_raise(skip=k, where=..., order={"id": "asc"})\<close>\<close>

definition find_first_or_raise :: "database \<Rightarrow> nat \<Rightarrow> nat \<Rightarrow> error + gacha_item" where
  "find_first_or_raise db g k =
     (case drop k (sort_key i_id (filter (in_stock g) (items db))) of
        [] \<Rightarrow> Inl RecordNotFound
      | i # _ \<Rightarrow> Inr i)"

text \<open>
  \<^verbatim>\<open>random.randint(a, b)\<close> returns some integer of the closed range; which one is decided
  by the entropy \<open>seed\<close>, and every value of the range is reached by some seed.
\<close>

definition randint :: "nat \<Rightarrow> nat \<Rightarrow> nat \<Rightarrow> nat" where
  "randint seed a b = a + seed mod (b - a + 1)"

definition update_item_amount :: "database \<Rightarrow> nat \<Rightarrow> int \<Rightarrow> database" where
  "update_item_amount db iid v =
     db\<lparr>items := map (\<lambda>i. if i_id i = iid then i\<lparr>amount := v\<rparr> else i) (items db)\<rparr>"

definition decrement_currency :: "database \<Rightarrow> nat \<Rightarrow> int \<Rightarrow> database" where
  "decrement_currency db pid c =
     db\<lparr>players := map (\<lambda>p. if p_id p = pid then p\<lparr>currency_amount := currency_amount p - c\<rparr>
                               else p) (players db)\<rparr>"

definition create_item_to_player :: "database \<Rightarrow> nat \<Rightarrow> nat \<Rightarrow> database" where
  "create_item_to_player db iid pid = db\<lparr>item_to_player := item_to_player db @ [(iid, pid)]\<rparr>"

section \<open>The commands, run without interruption\<close>

subsection \<open>\<^verbatim>\<open>gacha_draw\<close>\<close>

text \<open>The in-memory \<^verbatim>\<open>item.amount -= 1\<close> of the batch block.\<close>

definition drawn_item :: "gacha_item \<Rightarrow> gacha_item" where
  "drawn_item i = (if amount i \<noteq> -1 then i\<lparr>amount := amount i - 1\<rparr> else i)"

text \<open>
  The batch: the item row is overwritten with the decremented in-memory amount (only for
  a finite item), the player's balance is decremented by the cost in the store, and one
  link row is created.
\<close>

definition draw_batch :: "config \<Rightarrow> gacha_player \<Rightarrow> gacha_item \<Rightarrow> database \<Rightarrow> database" where
  "draw_batch cfg player i db =
     (let db1 = (if amount i \<noteq> -1 then update_item_amount db (i_id i) (amount (drawn_item i))
                 else db);
          db2 = decrement_currency db1 (p_id player) (currency_cost cfg)
      in create_item_to_player db2 (i_id i) (p_id player))"

definition gacha_draw ::
  "config \<Rightarrow> slash_context \<Rightarrow> nat \<Rightarrow> database \<Rightarrow> (error + gacha_item) \<times> database" where
  "gacha_draw cfg ctx seed db =
     (if gacha_disabled cfg then (Inl GachaNotEnabled, db)
      else if \<not> has_role (author ctx) (player_role cfg) then (Inl NoPlayerRole, db)
      else
        let (player, db1) = get_or_create db (guild_id ctx) (member_id (author ctx)) in
        if currency_amount player < currency_cost cfg then (Inl NotEnoughToDraw, db1)
        else
          let item_count = count_items db1 (guild_id ctx) in
          if item_count = 0 then (Inl NoItemsToDraw, db1)
          else
            (case find_first_or_raise db1 (guild_id ctx) (randint seed 0 (item_count - 1)) of
               Inl e \<Rightarrow> (Inl e, db1)
             | Inr i \<Rightarrow> (Inr (drawn_item i), draw_batch cfg player i db1)))"

subsection \<open>\<^verbatim>\<open>gacha_profile\<close>\<close>

definition gacha_profile ::
  "config \<Rightarrow> slash_context \<Rightarrow> database \<Rightarrow> (error + gacha_player) \<times> database" where
  "gacha_profile cfg ctx db =
     (if gacha_disabled cfg then (Inl GachaNotEnabled, db)
      else
        (case get_or_none db (guild_id ctx) (member_id (author ctx)) of
           Some player \<Rightarrow> (Inr player, db)
         | None \<Rightarrow>
             if \<not> has_role (author ctx) (player_role cfg) then (Inl NoGachaData, db)
             else
               (case create db (guild_id ctx) (member_id (author ctx)) of
                  Inl e \<Rightarrow> (Inl e, db)
                | Inr (player, db1) \<Rightarrow> (Inr player, db1))))"

subsection \<open>\<^verbatim>\<open>gacha_give_currency\<close>\<close>

text \<open>
  Lines 164 to 167: both in-memory objects are changed, then the recipient's object is
  saved, then the sender's.
\<close>

definition give_commit ::
  "int \<Rightarrow> gacha_player \<Rightarrow> gacha_player \<Rightarrow> database \<Rightarrow> database" where
  "give_commit amt player recipient_player db =
     (let recipient_player' =
            recipient_player\<lparr>currency_amount := currency_amount recipient_player + amt\<rparr>;
          player' = player\<lparr>currency_amount := currency_amount player - amt\<rparr>
      in save (save db recipient_player') player')"

text \<open>
  From line 151 on, with the sender's row in hand. The lazily created recipient row is
  created with \<^verbatim>\<open>"user_id": ctx.author.id\<close> (line 161).
\<close>

definition give_from ::
  "config \<Rightarrow> slash_context \<Rightarrow> member \<Rightarrow> int \<Rightarrow> gacha_player \<Rightarrow> database \<Rightarrow> (error + unit) \<times> database"
  where
  "give_from cfg ctx recipient amt player db =
     (if currency_amount player < amt then (Inl NotEnoughToGive, db)
      else
        (case get_or_none db (guild_id ctx) (member_id recipient) of
           Some recipient_player \<Rightarrow> (Inr (), give_commit amt player recipient_player db)
         | None \<Rightarrow>
             if \<not> has_role recipient (player_role cfg) then (Inl RecipientNoGachaData, db)
             else
               (case create db (guild_id ctx) (member_id (author ctx)) of
                  Inl e \<Rightarrow> (Inl e, db)
                | Inr (recipient_player, db1) \<Rightarrow>
                    (Inr (), give_commit amt player recipient_player db1))))"

definition gacha_give_currency ::
  "config \<Rightarrow> slash_context \<Rightarrow> member \<Rightarrow> int \<Rightarrow> database \<Rightarrow> (error + unit) \<times> database" where
  "gacha_give_currency cfg ctx recipient amt db =
     (if gacha_disabled cfg then (Inl GachaNotEnabled, db)
      else
        (case get_or_none db (guild_id ctx) (member_id (author ctx)) of
           Some player \<Rightarrow> give_from cfg ctx recipient amt player db
         | None \<Rightarrow>
             if \<not> has_role (author ctx) (player_role cfg) then (Inl NoGachaData, db)
             else
               (case create db (guild_id ctx) (member_id (author ctx)) of
                  Inl e \<Rightarrow> (Inl e, db)
                | Inr (player, db1) \<Rightarrow> give_from cfg ctx recipient amt player db1)))"

text \<open>
  The option declaration \<^verbatim>\<open>tansy.Option("The amount to give.", min_value=1, max_value=999)\<close>:
  the command framework refuses a value outside the declared range before the command
  body runs.
\<close>

definition amount_min_value :: int where "amount_min_value = 1"
definition amount_max_value :: int where "amount_max_value = 999"

definition give_currency_command ::
  "config \<Rightarrow> slash_context \<Rightarrow> member \<Rightarrow> int \<Rightarrow> database \<Rightarrow> (error + unit) \<times> database" where
  "give_currency_command cfg ctx recipient amt db =
     (if amt < amount_min_value \<or> amount_max_value < amt then (Inl OptionOutOfRange, db)
      else gacha_give_currency cfg ctx recipient amt db)"

subsection \<open>\<^verbatim>\<open>gacha_user_view_item\<close>\<close>

text \<open>
  The single query of the command: the first item of the guild with the given name that
  some link row ties to a player row of the caller in this guild.
\<close>

definition owned_by :: "database \<Rightarrow> nat \<Rightarrow> nat \<Rightarrow> gacha_item \<Rightarrow> bool" where
  "owned_by db g u i =
     list_ex (\<lambda>(iid, pid). iid = i_id i \<and>
                list_ex (\<lambda>p. p_id p = pid \<and> p_guild_id p = g \<and> p_user_id p = u) (players db))
             (item_to_player db)"

definition gacha_user_view_item ::
  "slash_context \<Rightarrow> string \<Rightarrow> database \<Rightarrow> (error + gacha_item) \<times> database" where
  "gacha_user_view_item ctx name db =
     (case find (\<lambda>i. i_guild_id i = guild_id ctx \<and> i_name i = name \<and>
                     owned_by db (guild_id ctx) (member_id (author ctx)) i) (items db) of
        None \<Rightarrow> (Inl ItemNotFound, db)
      | Some i \<Rightarrow> (Inr i, db))"

section \<open>The commands as interleaved coroutines\<close>

text \<open>
  The commands are coroutines: a command runs until it awaits a storage call and another
  command may run before it is resumed. A task is a command suspended at one of its
  storage calls, together with the local variables it holds there; one step performs
  that call and runs the command up to its next storage call or to its end. The checks
  made before the first storage call (the option range, the configuration gates and the
  author's role) are made when the task starts.
\<close>

datatype request =
    Draw config slash_context nat           \<comment> \<open>configuration, context, entropy of the draw\<close>
  | Give config slash_context member int    \<comment> \<open>configuration, context, recipient, amount\<close>

datatype outcome = Drew gacha_item | Gave

datatype task =
    Draw_get_or_create config slash_context nat                   \<comment> \<open>line 51\<close>
  | Draw_count config slash_context nat gacha_player              \<comment> \<open>line 60\<close>
  | Draw_find_first config slash_context gacha_player nat         \<comment> \<open>line 66, with the skip\<close>
  | Draw_batch config gacha_player gacha_item                     \<comment> \<open>line 72\<close>
  | Give_get_or_none config slash_context member int              \<comment> \<open>line 143\<close>
  | Give_create config slash_context member int                   \<comment> \<open>line 147\<close>
  | Give_get_recipient config slash_context member int gacha_player     \<comment> \<open>line 154\<close>
  | Give_create_recipient config slash_context int gacha_player         \<comment> \<open>line 160\<close>
  | Give_save_recipient gacha_player gacha_player   \<comment> \<open>line 166: recipient object, sender object\<close>
  | Give_save_player gacha_player                   \<comment> \<open>line 167\<close>
  | Finished "error + outcome"

fun start :: "request \<Rightarrow> task" where
  "start (Draw cfg ctx seed) =
     (if gacha_disabled cfg then Finished (Inl GachaNotEnabled)
      else if \<not> has_role (author ctx) (player_role cfg) then Finished (Inl NoPlayerRole)
      else Draw_get_or_create cfg ctx seed)"
| "start (Give cfg ctx recipient amt) =
     (if amt < amount_min_value \<or> amount_max_value < amt then Finished (Inl OptionOutOfRange)
      else if gacha_disabled cfg then Finished (Inl GachaNotEnabled)
      else Give_get_or_none cfg ctx recipient amt)"

text \<open>Line 151, reached with the sender's row from line 143 or from line 147.\<close>

definition give_check ::
  "config \<Rightarrow> slash_context \<Rightarrow> member \<Rightarrow> int \<Rightarrow> gacha_player \<Rightarrow> task" where
  "give_check cfg ctx recipient amt player =
     (if currency_amount player < amt then Finished (Inl NotEnoughToGive)
      else Give_get_recipient cfg ctx recipient amt player)"

text \<open>Lines 164 and 165: the two in-memory objects change, nothing is stored yet.\<close>

definition give_objects :: "int \<Rightarrow> gacha_player \<Rightarrow> gacha_player \<Rightarrow> task" where
  "give_objects amt player recipient_player =
     Give_save_recipient
       (recipient_player\<lparr>currency_amount := currency_amount recipient_player + amt\<rparr>)
       (player\<lparr>currency_amount := currency_amount player - amt\<rparr>)"

fun step :: "task \<Rightarrow> database \<Rightarrow> task \<times> database" where
  "step (Draw_get_or_create cfg ctx seed) db =
     (let (player, db1) = get_or_create db (guild_id ctx) (member_id (author ctx)) in
      if currency_amount player < currency_cost cfg then (Finished (Inl NotEnoughToDraw), db1)
      else (Draw_count cfg ctx seed player, db1))"
| "step (Draw_count cfg ctx seed player) db =
     (let item_count = count_items db (guild_id ctx) in
      if item_count = 0 then (Finished (Inl NoItemsToDraw), db)
      else (Draw_find_first cfg ctx player (randint seed 0 (item_count - 1)), db))"
| "step (Draw_find_first cfg ctx player k) db =
     (case find_first_or_raise db (guild_id ctx) k of
        Inl e \<Rightarrow> (Finished (Inl e), db)
      | Inr i \<Rightarrow> (Draw_batch cfg player i, db))"
| "step (Draw_batch cfg player i) db =
     (Finished (Inr (Drew (drawn_item i))), draw_batch cfg player i db)"
| "step (Give_get_or_none cfg ctx recipient amt) db =
     (case get_or_none db (guild_id ctx) (member_id (author ctx)) of
        Some player \<Rightarrow> (give_check cfg ctx recipient amt player, db)
      | None \<Rightarrow>
          if \<not> has_role (author ctx) (player_role cfg) then (Finished (Inl NoGachaData), db)
          else (Give_create cfg ctx recipient amt, db))"
| "step (Give_create cfg ctx recipient amt) db =
     (case create db (guild_id ctx) (member_id (author ctx)) of
        Inl e \<Rightarrow> (Finished (Inl e), db)
      | Inr (player, db1) \<Rightarrow> (give_check cfg ctx recipient amt player, db1))"
| "step (Give_get_recipient cfg ctx recipient amt player) db =
     (case get_or_none db (guild_id ctx) (member_id recipient) of
        Some recipient_player \<Rightarrow> (give_objects amt player recipient_player, db)
      | None \<Rightarrow>
          if \<not> has_role recipient (player_role cfg) then (Finished (Inl RecipientNoGachaData), db)
          else (Give_create_recipient cfg ctx amt player, db))"
| "step (Give_create_recipient cfg ctx amt player) db =
     (case create db (guild_id ctx) (member_id (author ctx)) of
        Inl e \<Rightarrow> (Finished (Inl e), db)
      | Inr (recipient_player, db1) \<Rightarrow> (give_objects amt player recipient_player, db1))"
| "step (Give_save_recipient recipient_player player) db =
     (Give_save_player player, save db recipient_player)"
| "step (Give_save_player player) db = (Finished (Inr Gave), save db player)"
| "step (Finished r) db = (Finished r, db)"

text \<open>A task run on its own for \<open>n\<close> steps.\<close>

fun run_task :: "nat \<Rightarrow> task \<Rightarrow> database \<Rightarrow> task \<times> database" where
  "run_task 0 t db = (t, db)"
| "run_task (Suc n) t db = (case step t db of (t', db') \<Rightarrow> run_task n t' db')"

text \<open>
  A history of a pool of tasks over one store: the schedule names, step by step, the
  task that is resumed next.
\<close>

fun run_schedule :: "nat list \<Rightarrow> database \<times> task list \<Rightarrow> database \<times> task list" where
  "run_schedule [] s = s"
| "run_schedule (n # ns) (db, ts) =
     (if n < length ts
      then (case step (ts ! n) db of (t', db') \<Rightarrow> run_schedule ns (db', ts[n := t']))
      else run_schedule ns (db, ts))"

text \<open>The same commands run one after the other, each to its end.\<close>

fun result :: "request \<Rightarrow> database \<Rightarrow> error + outcome" where
  "result (Draw cfg ctx seed) db = map_sum id Drew (fst (gacha_draw cfg ctx seed db))"
| "result (Give cfg ctx recipient amt) db =
     map_sum id (\<lambda>_. Gave) (fst (give_currency_command cfg ctx recipient amt db))"

fun exec :: "request \<Rightarrow> database \<Rightarrow> database" where
  "exec (Draw cfg ctx seed) db = snd (gacha_draw cfg ctx seed db)"
| "exec (Give cfg ctx recipient amt) db = snd (give_currency_command cfg ctx recipient amt db)"

definition exec_all :: "request list \<Rightarrow> database \<Rightarrow> database" where
  "exec_all rs db = foldl (\<lambda>d r. exec r d) db rs"

text \<open>The invariants of the store.\<close>

definition stock_ok :: "database \<Rightarrow> bool" where
  "stock_ok db = list_all (\<lambda>i. -1 \<le> amount i) (items db)"

definition balances_ok :: "database \<Rightarrow> bool" where
  "balances_ok db = list_all (\<lambda>p. 0 \<le> currency_amount p) (players db)"

definition ids_ok :: "database \<Rightarrow> bool" where
  "ids_ok db = distinct (map p_id (players db))"

text \<open>
  What a suspended draw holds when it is about to commit: an item that had stock left
  (or unlimited stock) when it was selected.
\<close>

fun task_ok :: "task \<Rightarrow> bool" where
  "task_ok (Draw_batch cfg player i) = (amount i \<noteq> 0 \<and> -1 \<le> amount i)"
| "task_ok _ = True"

text \<open>The items of a guild that a draw can select.\<close>

definition eligible :: "database \<Rightarrow> nat \<Rightarrow> gacha_item set" where
  "eligible db g = {i \<in> set (items db). i_guild_id i = g \<and> amount i \<noteq> 0}"

section \<open>Observations and example inputs\<close>

text \<open>
  The balance a user has in a guild: the currency of the row \<^verbatim>\<open>get_or_none\<close> finds, and 0
  for a user without a row (the balance a lazily created row starts with).
\<close>

definition balance :: "database \<Rightarrow> nat \<Rightarrow> nat \<Rightarrow> int" where
  "balance db g u = (case get_or_none db g u of None \<Rightarrow> 0 | Some p \<Rightarrow> currency_amount p)"

definition total_currency :: "database \<Rightarrow> int" where
  "total_currency db = sum_list (map currency_amount (players db))"

definition ex_cfg :: config where
  "ex_cfg = \<lparr>player_role = Some 7, enabled = True, currency_cost = 10\<rparr>"

definition ex_alice :: member where
  "ex_alice = \<lparr>member_id = 1, roles = [7]\<rparr>"

definition ex_bob :: member where
  "ex_bob = \<lparr>member_id = 2, roles = [7]\<rparr>"

definition ex_carol :: member where
  "ex_carol = \<lparr>member_id = 3, roles = []\<rparr>"

definition ex_ctx :: "member \<Rightarrow> slash_context" where
  "ex_ctx m = \<lparr>guild_id = 100, author = m\<rparr>"

definition ex_row :: "nat \<Rightarrow> nat \<Rightarrow> int \<Rightarrow> gacha_player" where
  "ex_row i u b = \<lparr>p_id = i, p_guild_id = 100, p_user_id = u, currency_amount = b\<rparr>"

definition ex_item :: "nat \<Rightarrow> string \<Rightarrow> int \<Rightarrow> gacha_item" where
  "ex_item i n a = \<lparr>i_id = i, i_guild_id = 100, i_name = n, amount = a\<rparr>"

definition ex_db :: "gacha_player list \<Rightarrow> bool \<Rightarrow> database" where
  "ex_db ps uq =
     \<lparr>players = ps, items = [ex_item 1 ''A'' 1, ex_item 2 ''B'' (-1)],
      item_to_player = [], unique_guild_user = uq\<rparr>"

section \<open>Basic facts about the storage operations\<close>

lemmas ex_defs = ex_cfg_def ex_alice_def ex_bob_def ex_carol_def ex_ctx_def ex_row_def
  ex_item_def ex_db_def

lemmas store_defs = get_or_none_def new_player_def insert_player_def create_def
  get_or_create_def save_def fresh_id_def gacha_disabled_def role_unset_def has_role_def

lemmas cmd_defs = count_items_def in_stock_def find_first_or_raise_def randint_def
  update_item_amount_def decrement_currency_def create_item_to_player_def drawn_item_def
  draw_batch_def give_check_def give_objects_def amount_min_value_def amount_max_value_def

lemma find_app:
  "find P (xs @ ys) = (case find P xs of None \<Rightarrow> find P ys | Some x \<Rightarrow> Some x)"
  by (induction xs) auto

lemma balance_insert_new:
  "balance (insert_player db (new_player db g u)) g' u' = balance db g' u'"
  by (auto simp: balance_def get_or_none_def insert_player_def new_player_def find_app
           split: option.splits)

lemma get_or_create_frame:
  "items (snd (get_or_create db g u)) = items db"
  "item_to_player (snd (get_or_create db g u)) = item_to_player db"
  "balance (snd (get_or_create db g u)) g' u' = balance db g' u'"
  "currency_amount (fst (get_or_create db g u)) = balance db g u"
proof -
  show "items (snd (get_or_create db g u)) = items db"
    by (simp add: get_or_create_def insert_player_def split: option.splits)
  show "item_to_player (snd (get_or_create db g u)) = item_to_player db"
    by (simp add: get_or_create_def insert_player_def split: option.splits)
  show "balance (snd (get_or_create db g u)) g' u' = balance db g' u'"
    by (simp add: get_or_create_def balance_insert_new split: option.splits)
  show "currency_amount (fst (get_or_create db g u)) = balance db g u"
    by (simp add: get_or_create_def balance_def new_player_def split: option.splits)
qed

lemma create_fresh:
  "get_or_none db g u = None \<Longrightarrow>
     create db g u = Inr (new_player db g u, insert_player db (new_player db g u))"
  by (simp add: create_def)

section \<open>Giving currency\<close>

text \<open>
  Claim C1 (transfer moves exactly the amount into the recipient's own row, also when
  that row is lazily created, and conserves the total). The code at the input "Alice,
  balance 10, gives 5 to Bob, who holds the player role and has no row yet": the row
  created for the recipient carries the sender's user id (line 161). Without a unique
  constraint the command succeeds, the 5 units land in a second row of Alice and Bob
  still has no row; with the constraint the create fails and nothing is transferred.
\<close>

theorem give_new_recipient_credits_sender_row:
  "give_currency_command ex_cfg (ex_ctx ex_alice) ex_bob 5 (ex_db [ex_row 1 1 10] False)
     = (Inr (), ex_db [ex_row 1 1 5, ex_row 2 1 5] False)
   \<and> get_or_none (ex_db [ex_row 1 1 5, ex_row 2 1 5] False) 100 (member_id ex_bob) = None
   \<and> give_currency_command ex_cfg (ex_ctx ex_alice) ex_bob 5 (ex_db [ex_row 1 1 10] True)
     = (Inl UniqueViolation, ex_db [ex_row 1 1 10] True)"
  by (simp add: give_currency_command_def amount_min_value_def amount_max_value_def
        gacha_give_currency_def give_from_def give_commit_def ex_defs store_defs)

text \<open>
  Claim C5 (a transfer from a user to themselves fails and changes no balance). The
  code at the input "Alice, balance 10, gives 5 to Alice": nothing compares the two
  users, the command succeeds, the credited copy of the row is saved first and the
  debited copy overwrites it, so Alice's balance drops to 5.
\<close>

theorem give_to_self_destroys_currency:
  "give_currency_command ex_cfg (ex_ctx ex_alice) ex_alice 5 (ex_db [ex_row 1 1 10] True)
     = (Inr (), ex_db [ex_row 1 1 5] True)
   \<and> give_currency_command ex_cfg (ex_ctx ex_alice) ex_alice 5 (ex_db [ex_row 1 1 10] False)
     = (Inr (), ex_db [ex_row 1 1 5] False)"
  by (simp add: give_currency_command_def amount_min_value_def amount_max_value_def
        gacha_give_currency_def give_from_def give_commit_def ex_defs store_defs)

text \<open>
  Claim C9 (the command accepts only amounts from 1 to 999). An amount above 999 or
  below 1 is refused with the store untouched, before the command body runs; whenever
  the command is not refused for its amount, the amount lies in the closed range.
\<close>

theorem give_amount_range:
  "(999 < amt \<longrightarrow>
      give_currency_command cfg ctx recipient amt db = (Inl OptionOutOfRange, db))
   \<and> (amt < 1 \<longrightarrow>
      give_currency_command cfg ctx recipient amt db = (Inl OptionOutOfRange, db))
   \<and> (fst (give_currency_command cfg ctx recipient amt db) \<noteq> Inl OptionOutOfRange \<longrightarrow>
      1 \<le> amt \<and> amt \<le> 999)"
  by (auto simp: give_currency_command_def amount_min_value_def amount_max_value_def)

theorem give_amount_range_witness:
  "give_currency_command ex_cfg (ex_ctx ex_alice) ex_bob 1000 (ex_db [ex_row 1 1 5000] True)
     = (Inl OptionOutOfRange, ex_db [ex_row 1 1 5000] True)"
  using give_amount_range [of 1000 ex_cfg "ex_ctx ex_alice" ex_bob "ex_db [ex_row 1 1 5000] True"]
  by simp

section \<open>Profile and item view\<close>

text \<open>
  Claim C10 (profile of a caller without a player row). Without the player role the
  command fails and the store is unchanged (with "You have no data for gacha." when the
  gacha is enabled); with the role and the gacha enabled a row with a fresh id and
  balance 0 is created and returned; the store changes only for a caller with the role.
\<close>

theorem profile_without_record:
  assumes "get_or_none db (guild_id ctx) (member_id (author ctx)) = None"
  shows "(\<not> has_role (author ctx) (player_role cfg) \<longrightarrow>
            gacha_profile cfg ctx db =
              (Inl (if gacha_disabled cfg then GachaNotEnabled else NoGachaData), db))
       \<and> (\<not> gacha_disabled cfg \<and> has_role (author ctx) (player_role cfg) \<longrightarrow>
            gacha_profile cfg ctx db =
              (Inr (new_player db (guild_id ctx) (member_id (author ctx))),
               insert_player db (new_player db (guild_id ctx) (member_id (author ctx))))
            \<and> currency_amount (new_player db (guild_id ctx) (member_id (author ctx))) = 0)
       \<and> (snd (gacha_profile cfg ctx db) \<noteq> db \<longrightarrow> has_role (author ctx) (player_role cfg))"
  using assms by (auto simp: gacha_profile_def create_fresh new_player_def)

theorem profile_without_record_witness:
  "gacha_profile ex_cfg (ex_ctx ex_carol) (ex_db [ex_row 1 1 5] True)
     = (Inl NoGachaData, ex_db [ex_row 1 1 5] True)
   \<and> gacha_profile ex_cfg (ex_ctx ex_bob) (ex_db [ex_row 1 1 5] True)
     = (Inr (ex_row 2 2 0), ex_db [ex_row 1 1 5, ex_row 2 2 0] True)"
  using profile_without_record [of "ex_db [ex_row 1 1 5] True" "ex_ctx ex_carol" ex_cfg]
    profile_without_record [of "ex_db [ex_row 1 1 5] True" "ex_ctx ex_bob" ex_cfg]
  by (simp add: ex_defs store_defs)

text \<open>
  Claim C6 (profile and item view never change the store), as stated, fails: the
  profile of Bob, who holds the player role and has no row, adds a row.
\<close>

theorem profile_creates_row:
  "snd (gacha_profile ex_cfg (ex_ctx ex_bob) (ex_db [ex_row 1 1 5] True))
     \<noteq> ex_db [ex_row 1 1 5] True"
  by (simp add: gacha_profile_def ex_defs store_defs)

text \<open>
  Claim C6, amended: the item view never changes the store; the profile changes nothing
  except that, for a caller without a row who holds the player role in a guild with the
  gacha enabled, it appends one fresh zero-balance row for the caller.
\<close>

theorem reads_frame:
  "snd (gacha_user_view_item ctx name db) = db
   \<and> snd (gacha_profile cfg ctx db) =
       (if \<not> gacha_disabled cfg
           \<and> get_or_none db (guild_id ctx) (member_id (author ctx)) = None
           \<and> has_role (author ctx) (player_role cfg)
        then insert_player db (new_player db (guild_id ctx) (member_id (author ctx)))
        else db)"
  by (auto simp: gacha_user_view_item_def gacha_profile_def create_fresh split: option.splits)

theorem reads_frame_witness:
  "snd (gacha_profile ex_cfg (ex_ctx ex_alice) (ex_db [ex_row 1 1 5] True))
     = ex_db [ex_row 1 1 5] True
   \<and> snd (gacha_profile ex_cfg (ex_ctx ex_bob) (ex_db [ex_row 1 1 5] True))
     = ex_db [ex_row 1 1 5, ex_row 2 2 0] True"
  using reads_frame [of "ex_ctx ex_alice" "[]" "ex_db [ex_row 1 1 5] True" ex_cfg]
    reads_frame [of "ex_ctx ex_bob" "[]" "ex_db [ex_row 1 1 5] True" ex_cfg]
  by (simp add: ex_defs store_defs)

section \<open>Drawing\<close>

text \<open>
  Claim C7 (a draw with a balance below the cost). Every draw whose caller's balance is
  below the cost fails; it fails with "You do not have enough currency to draw from the
  gacha." unless one of the two gates that come before the balance check (gacha enabled,
  caller holds the player role) has already stopped it. No item and no link row
  changes, no existing player row changes (the only possible write is the zero-balance
  row of a caller who had none), every user's balance is the same as before, and a
  caller who already has a row leaves the whole store unchanged.
\<close>

theorem draw_insufficient_funds:
  assumes "balance db (guild_id ctx) (member_id (author ctx)) < currency_cost cfg"
  shows "isl (fst (gacha_draw cfg ctx seed db))
       \<and> (\<not> gacha_disabled cfg \<and> has_role (author ctx) (player_role cfg) \<longrightarrow>
            fst (gacha_draw cfg ctx seed db) = Inl NotEnoughToDraw)
       \<and> items (snd (gacha_draw cfg ctx seed db)) = items db
       \<and> item_to_player (snd (gacha_draw cfg ctx seed db)) = item_to_player db
       \<and> (players (snd (gacha_draw cfg ctx seed db)) = players db
          \<or> players (snd (gacha_draw cfg ctx seed db))
               = players db @ [new_player db (guild_id ctx) (member_id (author ctx))])
       \<and> (\<forall>g u. balance (snd (gacha_draw cfg ctx seed db)) g u = balance db g u)
       \<and> (get_or_none db (guild_id ctx) (member_id (author ctx)) \<noteq> None
            \<longrightarrow> snd (gacha_draw cfg ctx seed db) = db)"
proof (cases "gacha_disabled cfg \<or> \<not> has_role (author ctx) (player_role cfg)")
  case True
  then have "gacha_draw cfg ctx seed db = (Inl GachaNotEnabled, db)
           \<or> gacha_draw cfg ctx seed db = (Inl NoPlayerRole, db)"
    by (auto simp: gacha_draw_def)
  then show ?thesis using True by auto
next
  case False
  obtain player db1
    where g: "get_or_create db (guild_id ctx) (member_id (author ctx)) = (player, db1)"
    by (cases "get_or_create db (guild_id ctx) (member_id (author ctx))")
  have c: "currency_amount player = balance db (guild_id ctx) (member_id (author ctx))"
    using get_or_create_frame(4)[of db "guild_id ctx" "member_id (author ctx)"] g by simp
  have r: "gacha_draw cfg ctx seed db = (Inl NotEnoughToDraw, db1)"
    using assms False g c by (simp add: gacha_draw_def)
  have d: "db1 = snd (get_or_create db (guild_id ctx) (member_id (author ctx)))"
    using g by simp
  have p: "players db1 = players db
         \<or> players db1 = players db @ [new_player db (guild_id ctx) (member_id (author ctx))]"
    by (simp add: d get_or_create_def insert_player_def split: option.splits)
  have e: "get_or_none db (guild_id ctx) (member_id (author ctx)) \<noteq> None \<longrightarrow> db1 = db"
    by (auto simp: d get_or_create_def)
  show ?thesis
    unfolding r using p e by (simp add: d get_or_create_frame)
qed

theorem draw_insufficient_funds_witness:
  "fst (gacha_draw ex_cfg (ex_ctx ex_alice) 0 (ex_db [ex_row 1 1 5] True)) = Inl NotEnoughToDraw
   \<and> snd (gacha_draw ex_cfg (ex_ctx ex_alice) 0 (ex_db [ex_row 1 1 5] True))
       = ex_db [ex_row 1 1 5] True"
proof -
  have h: "balance (ex_db [ex_row 1 1 5] True) (guild_id (ex_ctx ex_alice))
             (member_id (author (ex_ctx ex_alice))) < currency_cost ex_cfg"
    by (simp add: ex_defs store_defs balance_def)
  show ?thesis
    using draw_insufficient_funds [OF h, of 0]
    by (simp add: ex_defs store_defs)
qed

subsection \<open>Selection\<close>

lemma find_first_or_raise_nth:
  "k < count_items db g \<Longrightarrow>
     find_first_or_raise db g k = Inr (sort_key i_id (filter (in_stock g) (items db)) ! k)"
  by (simp add: find_first_or_raise_def count_items_def Cons_nth_drop_Suc[symmetric])

lemma set_sorted_eligible:
  "set (sort_key i_id (filter (in_stock g) (items db))) = eligible db g"
  by (auto simp: eligible_def in_stock_def)

lemma distinct_sorted_eligible:
  "distinct (map i_id (items db)) \<Longrightarrow> distinct (sort_key i_id (filter (in_stock g) (items db)))"
  by (simp add: distinct_map)

lemma selection_bij:
  assumes "distinct (map i_id (items db))"
  shows "bij_betw (find_first_or_raise db g) {..<count_items db g} (Inr ` eligible db g)"
proof -
  let ?es = "sort_key i_id (filter (in_stock g) (items db))"
  have len: "length ?es = count_items db g"
    by (simp add: count_items_def)
  have "bij_betw ((!) ?es) {..<count_items db g} (eligible db g)"
    using bij_betw_nth[OF distinct_sorted_eligible[OF assms, of g], of "{..<count_items db g}" "set ?es"]
      len set_sorted_eligible[of g db] by simp
  moreover have "bij_betw (Inr :: gacha_item \<Rightarrow> error + gacha_item) (eligible db g) (Inr ` eligible db g)"
    by (simp add: bij_betw_def inj_on_def)
  ultimately have "bij_betw ((Inr :: gacha_item \<Rightarrow> error + gacha_item) \<circ> (!) ?es)
      {..<count_items db g} (Inr ` eligible db g)"
    by (rule bij_betw_trans)
  moreover have "bij_betw ((Inr :: gacha_item \<Rightarrow> error + gacha_item) \<circ> (!) ?es)
        {..<count_items db g} (Inr ` eligible db g)
      = bij_betw (find_first_or_raise db g) {..<count_items db g} (Inr ` eligible db g)"
    by (rule bij_betw_cong) (simp add: find_first_or_raise_nth)
  ultimately show ?thesis
    by blast
qed

lemma count_items_card:
  assumes "distinct (map i_id (items db))"
  shows "count_items db g = card (eligible db g)"
proof -
  have "distinct (filter (in_stock g) (items db))"
    using assms by (simp add: distinct_map)
  then have "card (set (filter (in_stock g) (items db))) = length (filter (in_stock g) (items db))"
    by (rule distinct_card)
  moreover have "set (filter (in_stock g) (items db)) = eligible db g"
    by (auto simp: eligible_def in_stock_def)
  ultimately show ?thesis by (simp add: count_items_def)
qed

lemma count_items_zero: "count_items db g = 0 \<longleftrightarrow> eligible db g = {}"
  by (auto simp: count_items_def eligible_def in_stock_def filter_empty_conv)

lemma randint_range:
  "0 < n \<Longrightarrow> randint seed 0 (n - 1) < n"
  "k < n \<Longrightarrow> randint k 0 (n - 1) = k"
  by (simp_all add: randint_def)

lemma gacha_draw_select:
  assumes "\<not> gacha_disabled cfg"
    and "has_role (author ctx) (player_role cfg)"
    and "currency_cost cfg \<le> balance db (guild_id ctx) (member_id (author ctx))"
  shows "fst (gacha_draw cfg ctx seed db) =
           (if count_items db (guild_id ctx) = 0 then Inl NoItemsToDraw
            else map_sum id drawn_item
                   (find_first_or_raise db (guild_id ctx)
                      (randint seed 0 (count_items db (guild_id ctx) - 1))))"
proof -
  obtain player db1
    where g: "get_or_create db (guild_id ctx) (member_id (author ctx)) = (player, db1)"
    by (cases "get_or_create db (guild_id ctx) (member_id (author ctx))")
  have c: "currency_amount player = balance db (guild_id ctx) (member_id (author ctx))"
    using get_or_create_frame(4)[of db "guild_id ctx" "member_id (author ctx)"] g by simp
  have i: "items db1 = items db"
    using get_or_create_frame(1)[of db "guild_id ctx" "member_id (author ctx)"] g by simp
  have n: "count_items db1 (guild_id ctx) = count_items db (guild_id ctx)"
    by (simp add: count_items_def i)
  have f: "find_first_or_raise db1 (guild_id ctx) k = find_first_or_raise db (guild_id ctx) k" for k
    by (simp add: find_first_or_raise_def i)
  show ?thesis
    using assms g c by (simp add: gacha_draw_def n f Let_def split: sum.splits)
qed

text \<open>
  Claim C8 (uniform selection over the guild's items with nonzero stock; "No items to
  draw." when there is none). With distinct item ids, and for a draw that passes the
  gates and the balance check: the number \<open>n\<close> counted by the draw is the number of
  eligible items; the skips \<open>0, ..., n - 1\<close> select the eligible items one to one, so
  each eligible item is selected by exactly one of the \<open>n\<close> values that
  \<^verbatim>\<open>random.randint(0, n - 1)\<close> takes, whatever its stock; the draw returns the item at
  the skip that \<^verbatim>\<open>randint\<close> gives, every such skip being in range and every skip in
  range being given; and with no eligible item the draw fails with "No items to draw.".
\<close>

theorem draw_selection_uniform:
  assumes "distinct (map i_id (items db))"
    and "\<not> gacha_disabled cfg"
    and "has_role (author ctx) (player_role cfg)"
    and "currency_cost cfg \<le> balance db (guild_id ctx) (member_id (author ctx))"
  shows "count_items db (guild_id ctx) = card (eligible db (guild_id ctx))
       \<and> bij_betw (find_first_or_raise db (guild_id ctx)) {..<count_items db (guild_id ctx)}
           (Inr ` eligible db (guild_id ctx))
       \<and> (eligible db (guild_id ctx) \<noteq> {} \<longrightarrow>
           randint seed 0 (count_items db (guild_id ctx) - 1) < count_items db (guild_id ctx)
           \<and> fst (gacha_draw cfg ctx seed db) =
               map_sum id drawn_item
                 (find_first_or_raise db (guild_id ctx)
                    (randint seed 0 (count_items db (guild_id ctx) - 1))))
       \<and> (\<forall>k. k < count_items db (guild_id ctx) \<longrightarrow>
             randint k 0 (count_items db (guild_id ctx) - 1) = k)
       \<and> (eligible db (guild_id ctx) = {} \<longrightarrow>
             fst (gacha_draw cfg ctx seed db) = Inl NoItemsToDraw)"
proof -
  have 1: "count_items db (guild_id ctx) = card (eligible db (guild_id ctx))"
    by (rule count_items_card[OF assms(1)])
  have 2: "bij_betw (find_first_or_raise db (guild_id ctx)) {..<count_items db (guild_id ctx)}
           (Inr ` eligible db (guild_id ctx))"
    by (rule selection_bij[OF assms(1)])
  have 3: "eligible db (guild_id ctx) \<noteq> {} \<longrightarrow>
           randint seed 0 (count_items db (guild_id ctx) - 1) < count_items db (guild_id ctx)
           \<and> fst (gacha_draw cfg ctx seed db) =
               map_sum id drawn_item
                 (find_first_or_raise db (guild_id ctx)
                    (randint seed 0 (count_items db (guild_id ctx) - 1)))"
    using gacha_draw_select[OF assms(2,3,4), of seed] count_items_zero[of db "guild_id ctx"]
    by (auto simp: randint_def)
  have 4: "\<forall>k. k < count_items db (guild_id ctx) \<longrightarrow>
             randint k 0 (count_items db (guild_id ctx) - 1) = k"
    by (simp add: randint_def)
  have 5: "eligible db (guild_id ctx) = {} \<longrightarrow>
             fst (gacha_draw cfg ctx seed db) = Inl NoItemsToDraw"
    using gacha_draw_select[OF assms(2,3,4), of seed] count_items_zero[of db "guild_id ctx"]
    by simp
  from 1 2 3 4 5 show ?thesis by blast
qed

theorem draw_selection_uniform_witness:
  "count_items (ex_db [ex_row 1 1 10] True) 100 = 2
   \<and> fst (gacha_draw ex_cfg (ex_ctx ex_alice) 0 (ex_db [ex_row 1 1 10] True))
       = Inr (ex_item 1 ''A'' 0)
   \<and> fst (gacha_draw ex_cfg (ex_ctx ex_alice) 1 (ex_db [ex_row 1 1 10] True))
       = Inr (ex_item 2 ''B'' (-1))"
proof -
  have h: "distinct (map i_id (items (ex_db [ex_row 1 1 10] True)))"
    "\<not> gacha_disabled ex_cfg"
    "has_role (author (ex_ctx ex_alice)) (player_role ex_cfg)"
    "currency_cost ex_cfg
       \<le> balance (ex_db [ex_row 1 1 10] True) (guild_id (ex_ctx ex_alice))
            (member_id (author (ex_ctx ex_alice)))"
    by (simp_all add: ex_defs store_defs balance_def)
  have "ex_item 1 ''A'' 1 \<in> eligible (ex_db [ex_row 1 1 10] True) (guild_id (ex_ctx ex_alice))"
    by (simp add: eligible_def ex_defs)
  then have e: "eligible (ex_db [ex_row 1 1 10] True) (guild_id (ex_ctx ex_alice)) \<noteq> {}"
    by blast
  show ?thesis
    using draw_selection_uniform [OF h, of 0] draw_selection_uniform [OF h, of 1] e
    by (simp add: ex_defs cmd_defs)
qed

section \<open>Interleaved histories\<close>

subsection \<open>The two ways of running a command agree\<close>

lemma run_task_draw:
  "run_task 6 (start (Draw cfg ctx seed)) db =
     (Finished (result (Draw cfg ctx seed) db), exec (Draw cfg ctx seed) db)"
  by (auto simp: numeral_eq_Suc gacha_draw_def Let_def split: prod.splits sum.splits)

lemma run_task_give:
  "run_task 6 (start (Give cfg ctx recipient amt)) db =
     (Finished (result (Give cfg ctx recipient amt) db), exec (Give cfg ctx recipient amt) db)"
  by (auto simp: numeral_eq_Suc give_currency_command_def gacha_give_currency_def give_from_def
        give_commit_def give_check_def give_objects_def Let_def
        split: prod.splits sum.splits option.splits)

subsection \<open>Stock\<close>

text \<open>
  Claim C2 (the stock decrement is conditioned on the stock at commit time; two
  concurrent draws on an item with stock 1 give one success and one failure), as stated,
  fails. Alice and Bob, each with balance 10, draw at the same time from a guild whose
  only finite item A has stock 1; both draws count and select before either commits.
  Both succeed with item A, two link rows are created, and the stock is 0.
\<close>

theorem two_draws_both_take_last_item:
  "run_schedule [0, 1, 0, 1, 0, 1, 0, 1]
     (ex_db [ex_row 1 1 10, ex_row 2 2 10] True,
      [start (Draw ex_cfg (ex_ctx ex_alice) 0), start (Draw ex_cfg (ex_ctx ex_bob) 0)])
   = (\<lparr>players = [ex_row 1 1 0, ex_row 2 2 0],
       items = [ex_item 1 ''A'' 0, ex_item 2 ''B'' (-1)],
       item_to_player = [(1, 1), (1, 2)], unique_guild_user = True\<rparr>,
      [Finished (Inr (Drew (ex_item 1 ''A'' 0))), Finished (Inr (Drew (ex_item 1 ''A'' 0)))])"
  by (simp add: ex_defs store_defs cmd_defs)

lemma items_create:
  "create db g u = Inr (p, db1) \<Longrightarrow> items db1 = items db"
  by (auto simp: create_def insert_player_def split: if_splits)

lemma items_save: "items (save db p) = items db"
  by (simp add: save_def)

lemma find_first_or_raise_in:
  assumes "find_first_or_raise db g k = Inr i"
  shows "i \<in> set (items db) \<and> in_stock g i"
proof -
  from assms obtain rest where "drop k (sort_key i_id (filter (in_stock g) (items db))) = i # rest"
    by (auto simp: find_first_or_raise_def split: list.splits)
  then have "i \<in> set (drop k (sort_key i_id (filter (in_stock g) (items db))))"
    by simp
  then have "i \<in> set (sort_key i_id (filter (in_stock g) (items db)))"
    by (rule in_set_dropD)
  then show ?thesis by simp
qed

lemma stock_ok_draw_batch:
  assumes "stock_ok db" and "amount i \<noteq> 0" and "-1 \<le> amount i"
  shows "stock_ok (draw_batch cfg player i db)"
  using assms
  by (auto simp: stock_ok_def draw_batch_def update_item_amount_def decrement_currency_def
        create_item_to_player_def drawn_item_def list_all_iff Let_def)

lemma step_stock:
  assumes "stock_ok db" and "task_ok t"
  shows "stock_ok (snd (step t db)) \<and> task_ok (fst (step t db))"
proof (cases t)
  case (Draw_get_or_create cfg ctx seed)
  then show ?thesis
    using assms get_or_create_frame(1)[of db "guild_id ctx" "member_id (author ctx)"]
    by (auto simp: stock_ok_def Let_def split: prod.splits)
next
  case (Draw_count cfg ctx seed player)
  then show ?thesis using assms by (simp add: Let_def)
next
  case (Draw_find_first cfg ctx player k)
  show ?thesis
  proof (cases "find_first_or_raise db (guild_id ctx) k")
    case (Inl e)
    then show ?thesis using assms Draw_find_first by simp
  next
    case (Inr i)
    from find_first_or_raise_in[OF Inr] assms(1)
    have "amount i \<noteq> 0 \<and> -1 \<le> amount i"
      by (auto simp: in_stock_def stock_ok_def list_all_iff)
    then show ?thesis using assms Draw_find_first Inr by simp
  qed
next
  case (Draw_batch cfg player i)
  then show ?thesis using assms by (simp add: stock_ok_draw_batch)
next
  case (Give_get_or_none cfg ctx recipient amt)
  then show ?thesis using assms by (auto simp: give_check_def split: option.splits)
next
  case (Give_create cfg ctx recipient amt)
  then show ?thesis using assms
    by (auto simp: give_check_def stock_ok_def dest: items_create split: sum.splits)
next
  case (Give_get_recipient cfg ctx recipient amt player)
  then show ?thesis using assms by (auto simp: give_objects_def split: option.splits)
next
  case (Give_create_recipient cfg ctx amt player)
  then show ?thesis using assms
    by (auto simp: give_objects_def stock_ok_def dest: items_create split: sum.splits)
next
  case (Give_save_recipient rp p)
  then show ?thesis using assms by (simp add: stock_ok_def items_save)
next
  case (Give_save_player p)
  then show ?thesis using assms by (simp add: stock_ok_def items_save)
next
  case (Finished r)
  then show ?thesis using assms by simp
qed

lemma task_ok_start: "task_ok (start r)"
  by (cases r) auto

lemma run_schedule_stock:
  "stock_ok db \<Longrightarrow> list_all task_ok ts \<Longrightarrow>
     stock_ok (fst (run_schedule ns (db, ts))) \<and> list_all task_ok (snd (run_schedule ns (db, ts)))"
proof (induction ns arbitrary: db ts)
  case Nil
  then show ?case by simp
next
  case (Cons n ns)
  show ?case
  proof (cases "n < length ts")
    case False
    then show ?thesis using Cons by simp
  next
    case True
    obtain t' db' where s: "step (ts ! n) db = (t', db')"
      by (cases "step (ts ! n) db")
    have "task_ok (ts ! n)"
      using Cons.prems(2) True by (simp add: list_all_length)
    with step_stock[OF Cons.prems(1), of "ts ! n"] s
    have ok: "stock_ok db'" "task_ok t'" by simp_all
    have "list_all task_ok (ts[n := t'])"
      using Cons.prems(2) ok(2) by (auto simp: list_all_iff dest: set_update_subset_insert[THEN subsetD])
    from Cons.IH[OF ok(1) this] show ?thesis
      using True s by simp
  qed
qed

lemma step_items:
  "items (snd (step t db)) =
     (case t of
        Draw_batch cfg p i \<Rightarrow>
          if amount i = -1 then items db
          else map (\<lambda>j. if i_id j = i_id i then j\<lparr>amount := amount i - 1\<rparr> else j) (items db)
      | _ \<Rightarrow> items db)"
proof (cases t)
  case (Draw_get_or_create cfg ctx seed)
  then show ?thesis
    using get_or_create_frame(1)[of db "guild_id ctx" "member_id (author ctx)"]
    by (auto simp: Let_def split: prod.splits)
next
  case (Draw_count cfg ctx seed player)
  then show ?thesis by (simp add: Let_def)
next
  case (Draw_find_first cfg ctx player k)
  then show ?thesis by (simp split: sum.splits)
next
  case (Draw_batch cfg player i)
  then show ?thesis
    by (simp add: draw_batch_def update_item_amount_def decrement_currency_def
          create_item_to_player_def drawn_item_def Let_def)
next
  case (Give_get_or_none cfg ctx recipient amt)
  then show ?thesis by (simp split: option.splits)
next
  case (Give_create cfg ctx recipient amt)
  then show ?thesis by (auto dest: items_create split: sum.splits)
next
  case (Give_get_recipient cfg ctx recipient amt player)
  then show ?thesis by (simp split: option.splits)
next
  case (Give_create_recipient cfg ctx amt player)
  then show ?thesis by (auto dest: items_create split: sum.splits)
next
  case (Give_save_recipient rp p)
  then show ?thesis by (simp add: items_save)
next
  case (Give_save_player p)
  then show ?thesis by (simp add: items_save)
next
  case (Finished r)
  then show ?thesis by simp
qed

lemma step_to_batch:
  assumes "fst (step t db) = Draw_batch cfg p i"
  shows "snd (step t db) = db \<and> i \<in> set (items db) \<and> amount i \<noteq> 0
       \<and> (\<exists>ctx k. t = Draw_find_first cfg ctx p k \<and> i_guild_id i = guild_id ctx
            \<and> find_first_or_raise db (guild_id ctx) k = Inr i)"
proof (cases t)
  case (Draw_find_first cfg' ctx player k)
  with assms obtain j where j: "find_first_or_raise db (guild_id ctx) k = Inr j"
    by (cases "find_first_or_raise db (guild_id ctx) k") auto
  with assms Draw_find_first have "cfg' = cfg" "player = p" "j = i" by simp_all
  with j Draw_find_first find_first_or_raise_in[OF j] show ?thesis
    by (simp add: in_stock_def)
qed (use assms in \<open>auto simp: Let_def give_check_def give_objects_def
       split: prod.splits sum.splits option.splits if_splits\<close>)

text \<open>
  Claim C2, amended: in every interleaved history of draw and give-currency commands
  that starts from a store whose stocks are all at least \<open>-1\<close>, every stock stays at least
  \<open>-1\<close>, so a finite stock never goes below 0. At every state such a history reaches and
  for every task that may run next: the only step that changes any item row is the
  commit of a draw that holds a finite item; the item a draw holds at its commit has
  unlimited stock or a stock of at least 1, read when the item was selected from the
  store as it was then; and the commit sets the stock of the rows with that item's id
  to exactly that selection-time stock minus one and leaves every other item row as it
  is. The commit does not look at the stored stock again.
\<close>

theorem draws_keep_stock_nonnegative:
  assumes "stock_ok db"
    and "run_schedule ns (db, map start rs) = (db1, ts1)"
    and "n < length ts1"
  shows "stock_ok db1 \<and> list_all task_ok ts1
       \<and> items (snd (step (ts1 ! n) db1)) =
           (case ts1 ! n of
              Draw_batch cfg p i \<Rightarrow>
                if amount i = -1 then items db1
                else map (\<lambda>j. if i_id j = i_id i then j\<lparr>amount := amount i - 1\<rparr> else j)
                       (items db1)
            | _ \<Rightarrow> items db1)
       \<and> (\<forall>cfg p i. ts1 ! n = Draw_batch cfg p i \<longrightarrow> amount i = -1 \<or> 1 \<le> amount i)
       \<and> (\<forall>cfg p i. fst (step (ts1 ! n) db1) = Draw_batch cfg p i \<longrightarrow>
             snd (step (ts1 ! n) db1) = db1 \<and> i \<in> set (items db1) \<and> amount i \<noteq> 0)"
proof -
  have inv: "stock_ok db1 \<and> list_all task_ok ts1"
    using run_schedule_stock[OF assms(1), of "map start rs" ns] assms(2)
    by (simp add: list_all_iff task_ok_start)
  then have ok: "task_ok (ts1 ! n)"
    using assms(3) by (simp add: list_all_length)
  have b: "\<forall>cfg p i. ts1 ! n = Draw_batch cfg p i \<longrightarrow> amount i = -1 \<or> 1 \<le> amount i"
    using ok by auto
  have c: "\<forall>cfg p i. fst (step (ts1 ! n) db1) = Draw_batch cfg p i \<longrightarrow>
             snd (step (ts1 ! n) db1) = db1 \<and> i \<in> set (items db1) \<and> amount i \<noteq> 0"
    using step_to_batch[of "ts1 ! n" db1] by blast
  from inv b c step_items[of "ts1 ! n" db1] show ?thesis by simp
qed

theorem draws_keep_stock_nonnegative_witness:
  "stock_ok (ex_db [ex_row 1 1 10, ex_row 2 2 10] True)
   \<and> run_schedule [0, 1, 0, 1, 0, 1, 0]
        (ex_db [ex_row 1 1 10, ex_row 2 2 10] True,
         map start [Draw ex_cfg (ex_ctx ex_alice) 0, Draw ex_cfg (ex_ctx ex_bob) 0])
     = (\<lparr>players = [ex_row 1 1 0, ex_row 2 2 10],
         items = [ex_item 1 ''A'' 0, ex_item 2 ''B'' (-1)],
         item_to_player = [(1, 1)], unique_guild_user = True\<rparr>,
        [Finished (Inr (Drew (ex_item 1 ''A'' 0))),
         Draw_batch ex_cfg (ex_row 2 2 10) (ex_item 1 ''A'' 1)])
   \<and> items (snd (step (Draw_batch ex_cfg (ex_row 2 2 10) (ex_item 1 ''A'' 1))
        \<lparr>players = [ex_row 1 1 0, ex_row 2 2 10],
         items = [ex_item 1 ''A'' 0, ex_item 2 ''B'' (-1)],
         item_to_player = [(1, 1)], unique_guild_user = True\<rparr>))
     = [ex_item 1 ''A'' 0, ex_item 2 ''B'' (-1)]"
proof -
  have h: "stock_ok (ex_db [ex_row 1 1 10, ex_row 2 2 10] True)"
    by (simp add: stock_ok_def ex_defs)
  have r: "run_schedule [0, 1, 0, 1, 0, 1, 0]
        (ex_db [ex_row 1 1 10, ex_row 2 2 10] True,
         map start [Draw ex_cfg (ex_ctx ex_alice) 0, Draw ex_cfg (ex_ctx ex_bob) 0])
     = (\<lparr>players = [ex_row 1 1 0, ex_row 2 2 10],
         items = [ex_item 1 ''A'' 0, ex_item 2 ''B'' (-1)],
         item_to_player = [(1, 1)], unique_guild_user = True\<rparr>,
        [Finished (Inr (Drew (ex_item 1 ''A'' 0))),
         Draw_batch ex_cfg (ex_row 2 2 10) (ex_item 1 ''A'' 1)])"
    by (simp add: ex_defs store_defs cmd_defs)
  have n: "(1::nat) < length [Finished (Inr (Drew (ex_item 1 ''A'' 0))),
         Draw_batch ex_cfg (ex_row 2 2 10) (ex_item 1 ''A'' 1)]"
    by simp
  show ?thesis
    using h r draws_keep_stock_nonnegative [OF h r n]
    by (simp add: ex_item_def)
qed

subsection \<open>Balances\<close>

text \<open>
  Claim C4 (no interleaving drives a balance negative; the debit is applied only if the
  balance is still sufficient at commit time), as stated, fails. Alice, with balance 10
  and a cost of 10 per draw, draws twice at the same time; both draws pass the balance
  check before either commits. Both succeed and her balance ends at \<open>-10\<close>.
\<close>

theorem two_draws_overdraw_balance:
  "run_schedule [0, 1, 0, 1, 0, 1, 0, 1]
     (ex_db [ex_row 1 1 10] True,
      [start (Draw ex_cfg (ex_ctx ex_alice) 1), start (Draw ex_cfg (ex_ctx ex_alice) 1)])
   = (\<lparr>players = [ex_row 1 1 (-10)],
       items = [ex_item 1 ''A'' 1, ex_item 2 ''B'' (-1)],
       item_to_player = [(2, 1), (2, 1)], unique_guild_user = True\<rparr>,
      [Finished (Inr (Drew (ex_item 2 ''B'' (-1)))), Finished (Inr (Drew (ex_item 2 ''B'' (-1))))])"
  by (simp add: ex_defs store_defs cmd_defs)

lemma foldr_max_ge: "x \<in> set xs \<Longrightarrow> x \<le> foldr max xs (0::nat)"
  by (induction xs) auto

lemma fresh_id_notin: "fresh_id xs \<notin> set xs"
  using foldr_max_ge[of "fresh_id xs" xs] by (auto simp: fresh_id_def)

lemma insert_new_ok:
  assumes "balances_ok db" and "ids_ok db"
  shows "balances_ok (insert_player db (new_player db g u))
       \<and> ids_ok (insert_player db (new_player db g u))"
  using assms fresh_id_notin[of "map p_id (players db)"]
  by (simp add: balances_ok_def ids_ok_def insert_player_def new_player_def)

lemma get_or_none_in: "get_or_none db g u = Some p \<Longrightarrow> p \<in> set (players db)"
  by (auto simp: get_or_none_def find_Some_iff)

lemma get_or_create_ok:
  assumes "balances_ok db" and "ids_ok db" and "get_or_create db g u = (p, db1)"
  shows "balances_ok db1 \<and> ids_ok db1 \<and> p \<in> set (players db1)"
proof (cases "get_or_none db g u")
  case None
  then show ?thesis
    using assms(3) insert_new_ok[OF assms(1,2), of g u]
    by (auto simp: get_or_create_def insert_player_def)
next
  case (Some q)
  then show ?thesis
    using assms get_or_none_in[OF Some] by (auto simp: get_or_create_def)
qed

lemma create_ok:
  assumes "balances_ok db" and "ids_ok db" and "create db g u = Inr (p, db1)"
  shows "balances_ok db1 \<and> ids_ok db1 \<and> 0 \<le> currency_amount p"
  using assms(3) insert_new_ok[OF assms(1,2), of g u]
  by (auto simp: create_def new_player_def split: if_splits)

lemma ids_map_same:
  "(\<And>q. p_id (f q) = p_id q) \<Longrightarrow> map p_id (map f ps) = map p_id ps"
  by (induction ps) auto

lemma ids_save: "map p_id (players (save db p)) = map p_id (players db)"
  by (simp add: save_def ids_map_same del: map_map)

lemma ids_decrement_currency:
  "map p_id (players (decrement_currency db x c)) = map p_id (players db)"
  by (simp add: decrement_currency_def ids_map_same del: map_map)

lemma save_ok:
  assumes "balances_ok db" and "ids_ok db" and "0 \<le> currency_amount p"
  shows "balances_ok (save db p) \<and> ids_ok (save db p)"
proof
  show "balances_ok (save db p)"
    using assms(1,3) by (auto simp: balances_ok_def save_def list_all_iff)
  show "ids_ok (save db p)"
    using assms(2) by (simp only: ids_ok_def ids_save)
qed

lemma decrement_currency_ok:
  assumes "balances_ok db" and "ids_ok db" and "player \<in> set (players db)"
    and "c \<le> currency_amount player"
  shows "balances_ok (decrement_currency db (p_id player) c)
       \<and> ids_ok (decrement_currency db (p_id player) c)"
proof
  have same: "q = player" if "q \<in> set (players db)" and "p_id q = p_id player" for q
    using that assms(2,3) by (auto simp: ids_ok_def distinct_map inj_on_def)
  have a: "0 \<le> currency_amount q - c" if "q \<in> set (players db)" and "p_id q = p_id player" for q
    using same[OF that] assms(4) by simp
  have b: "0 \<le> currency_amount q" if "q \<in> set (players db)" for q
    using assms(1) that by (simp add: balances_ok_def list_all_iff)
  show "balances_ok (decrement_currency db (p_id player) c)"
    using a b by (auto simp: balances_ok_def decrement_currency_def list_all_iff)
  show "ids_ok (decrement_currency db (p_id player) c)"
    using assms(2) by (simp only: ids_ok_def ids_decrement_currency)
qed

lemma players_update_item_amount: "players (update_item_amount db x v) = players db"
  by (simp add: update_item_amount_def)

lemma players_create_item_to_player: "players (create_item_to_player db x y) = players db"
  by (simp add: create_item_to_player_def)

lemma draw_batch_ok:
  assumes "balances_ok db" and "ids_ok db" and "player \<in> set (players db)"
    and "currency_cost cfg \<le> currency_amount player"
  shows "balances_ok (draw_batch cfg player i db) \<and> ids_ok (draw_batch cfg player i db)"
proof -
  define db1 where
    "db1 = (if amount i \<noteq> -1 then update_item_amount db (i_id i) (amount (drawn_item i)) else db)"
  have p1: "players db1 = players db"
    by (simp add: db1_def players_update_item_amount)
  have ok1: "balances_ok db1" "ids_ok db1" "player \<in> set (players db1)"
    using assms(1,2,3) by (simp_all add: balances_ok_def ids_ok_def p1)
  from decrement_currency_ok[OF ok1 assms(4)]
  have "balances_ok (create_item_to_player (decrement_currency db1 (p_id player) (currency_cost cfg))
           (i_id i) (p_id player))
      \<and> ids_ok (create_item_to_player (decrement_currency db1 (p_id player) (currency_cost cfg))
           (i_id i) (p_id player))"
    by (simp add: balances_ok_def ids_ok_def players_create_item_to_player)
  then show ?thesis
    by (simp add: draw_batch_def db1_def Let_def)
qed

lemma gacha_draw_ok:
  assumes "balances_ok db" and "ids_ok db"
  shows "balances_ok (snd (gacha_draw cfg ctx seed db)) \<and> ids_ok (snd (gacha_draw cfg ctx seed db))"
proof -
  obtain player db1
    where g: "get_or_create db (guild_id ctx) (member_id (author ctx)) = (player, db1)"
    by (cases "get_or_create db (guild_id ctx) (member_id (author ctx))")
  note ok = get_or_create_ok[OF assms g]
  show ?thesis
    using assms ok g draw_batch_ok[of db1 player cfg]
    by (auto simp: gacha_draw_def Let_def split: sum.splits)
qed

lemma give_commit_ok:
  assumes "balances_ok db" and "ids_ok db" and "amt \<le> currency_amount player"
    and "0 \<le> currency_amount rp" and "0 \<le> amt"
  shows "balances_ok (give_commit amt player rp db) \<and> ids_ok (give_commit amt player rp db)"
proof -
  let ?rp = "rp\<lparr>currency_amount := currency_amount rp + amt\<rparr>"
  let ?p = "player\<lparr>currency_amount := currency_amount player - amt\<rparr>"
  have 1: "balances_ok (save db ?rp) \<and> ids_ok (save db ?rp)"
    using save_ok[OF assms(1,2), of ?rp] assms(4,5) by simp
  have "balances_ok (save (save db ?rp) ?p) \<and> ids_ok (save (save db ?rp) ?p)"
    using save_ok[of "save db ?rp" ?p] 1 assms(3) by simp
  then show ?thesis by (simp add: give_commit_def Let_def)
qed

lemma balances_ok_in: "balances_ok db \<Longrightarrow> p \<in> set (players db) \<Longrightarrow> 0 \<le> currency_amount p"
  by (simp add: balances_ok_def list_all_iff)

lemma give_from_ok:
  assumes "balances_ok db" and "ids_ok db" and "0 \<le> amt"
  shows "balances_ok (snd (give_from cfg ctx recipient amt player db))
       \<and> ids_ok (snd (give_from cfg ctx recipient amt player db))"
proof (cases "currency_amount player < amt")
  case True
  then show ?thesis using assms by (simp add: give_from_def)
next
  case False
  show ?thesis
  proof (cases "get_or_none db (guild_id ctx) (member_id recipient)")
    case (Some rp)
    have "0 \<le> currency_amount rp"
      using balances_ok_in[OF assms(1) get_or_none_in[OF Some]] .
    then show ?thesis
      using False Some give_commit_ok[OF assms(1,2), of amt player rp] assms(3)
      by (simp add: give_from_def)
  next
    case None
    show ?thesis
    proof (cases "create db (guild_id ctx) (member_id (author ctx))")
      case (Inl e)
      then show ?thesis using assms False None by (simp add: give_from_def)
    next
      case (Inr r)
      obtain rp db1 where r: "r = (rp, db1)" by (cases r)
      note ok = create_ok[OF assms(1,2) Inr[unfolded r]]
      show ?thesis
        using False None Inr r ok assms give_commit_ok[of db1 amt player rp]
        by (simp add: give_from_def)
    qed
  qed
qed

lemma give_currency_command_ok:
  assumes "balances_ok db" and "ids_ok db"
  shows "balances_ok (snd (give_currency_command cfg ctx recipient amt db))
       \<and> ids_ok (snd (give_currency_command cfg ctx recipient amt db))"
proof (cases "amt < amount_min_value \<or> amount_max_value < amt")
  case True
  then show ?thesis using assms by (simp add: give_currency_command_def)
next
  case False
  then have amt: "0 \<le> amt" by (simp add: amount_min_value_def)
  show ?thesis
  proof (cases "get_or_none db (guild_id ctx) (member_id (author ctx))")
    case (Some player)
    then show ?thesis
      using False assms give_from_ok[OF assms amt]
      by (simp add: give_currency_command_def gacha_give_currency_def)
  next
    case None
    show ?thesis
    proof (cases "create db (guild_id ctx) (member_id (author ctx))")
      case (Inl e)
      then show ?thesis using assms False None
        by (simp add: give_currency_command_def gacha_give_currency_def)
    next
      case (Inr r)
      obtain p db1 where r: "r = (p, db1)" by (cases r)
      note ok = create_ok[OF assms Inr[unfolded r]]
      show ?thesis
        using False None Inr r assms give_from_ok[of db1 amt cfg ctx recipient p] ok amt
        by (simp add: give_currency_command_def gacha_give_currency_def)
    qed
  qed
qed

lemma exec_ok:
  assumes "balances_ok db" and "ids_ok db"
  shows "balances_ok (exec r db) \<and> ids_ok (exec r db)"
  using gacha_draw_ok[OF assms] give_currency_command_ok[OF assms]
  by (cases r) simp_all

lemma exec_all_ok:
  "balances_ok db \<Longrightarrow> ids_ok db \<Longrightarrow> balances_ok (exec_all rs db) \<and> ids_ok (exec_all rs db)"
proof (induction rs arbitrary: db)
  case Nil
  then show ?case by (simp add: exec_all_def)
next
  case (Cons r rs)
  from exec_ok[OF Cons.prems, of r] Cons.IH[of "exec r db"]
  show ?case by (simp add: exec_all_def)
qed

text \<open>
  Claim C4, amended: when draw and give-currency commands run one after the other, each
  to its end, on a store with distinct player ids and no negative balance, no balance is
  negative after any of them. The balance is checked once, before the item is selected;
  the debit itself is unconditional.
\<close>

theorem sequential_balances_nonnegative:
  assumes "balances_ok db" and "distinct (map p_id (players db))"
  shows "balances_ok (exec_all rs db)"
  using exec_all_ok[of db rs] assms by (simp add: ids_ok_def)

theorem sequential_balances_nonnegative_witness:
  "balances_ok (ex_db [ex_row 1 1 10] True)
   \<and> balances_ok (exec_all [Draw ex_cfg (ex_ctx ex_alice) 1, Draw ex_cfg (ex_ctx ex_alice) 1]
        (ex_db [ex_row 1 1 10] True))"
proof -
  have h: "balances_ok (ex_db [ex_row 1 1 10] True)"
    "distinct (map p_id (players (ex_db [ex_row 1 1 10] True)))"
    by (simp_all add: balances_ok_def ex_defs)
  show ?thesis
    using h(1) sequential_balances_nonnegative [OF h,
        of "[Draw ex_cfg (ex_ctx ex_alice) 1, Draw ex_cfg (ex_ctx ex_alice) 1]"]
    by simp
qed

subsection \<open>The two saves of give-currency\<close>

text \<open>
  Claim C3 (the debit of the sender and the credit of the recipient are one atomic
  commit; no state with only one of them is observable). The code at the input "Alice,
  balance 10, gives 5 to Bob, balance 0": the recipient's row is saved by one storage
  call and the sender's by the next (lines 166 and 167). After the first of the two the
  store holds Alice 10 and Bob 5, a total of 15 instead of 10, the sender's save is
  still pending, and a profile command run at that moment shows these balances.
\<close>

theorem give_half_saved_state:
  "run_schedule [0, 0, 0]
     (ex_db [ex_row 1 1 10, ex_row 2 2 0] True, [start (Give ex_cfg (ex_ctx ex_alice) ex_bob 5)])
   = (ex_db [ex_row 1 1 10, ex_row 2 2 5] True, [Give_save_player (ex_row 1 1 5)])
   \<and> total_currency (ex_db [ex_row 1 1 10, ex_row 2 2 0] True) = 10
   \<and> total_currency (ex_db [ex_row 1 1 10, ex_row 2 2 5] True) = 15
   \<and> fst (gacha_profile ex_cfg (ex_ctx ex_alice) (ex_db [ex_row 1 1 10, ex_row 2 2 5] True))
       = Inr (ex_row 1 1 10)
   \<and> fst (gacha_profile ex_cfg (ex_ctx ex_bob) (ex_db [ex_row 1 1 10, ex_row 2 2 5] True))
       = Inr (ex_row 2 2 5)"
  by (simp add: ex_defs store_defs cmd_defs total_currency_def gacha_profile_def)

end
